theory Spec2Isabelle
  imports Main "HOL-Library.Sublist"
begin

section \<open>The page verification scripts\<close>

text \<open>
  The repository holds two scripts, \<^verbatim>\<open>verify_droid.py\<close> and \<^verbatim>\<open>verify_example.py\<close>.
  Each defines one routine over a browser page and a driving block that launches the
  browser, opens a page, calls the routine and closes the browser:
  \<^verbatim>\<open>
  def verify_droid(page):
      page.on("console", lambda msg: print(f"Console: {msg.text}"))
      page.on("pageerror", lambda err: print(f"Page Error: {err}"))
      try:
          page.goto("http://localhost:3000")
          page.wait_for_selector("text=Droid", timeout=5000)
      except Exception as e:
          print(f"Error: {e}")
      finally:
          page.screenshot(path="verification.png")

  if __name__ == "__main__":
      with sync_playwright() as p:
          browser = p.chromium.launch()
          page = browser.new_page()
          try:
              verify_droid(page)
          finally:
              browser.close()
  \<close>
  The browser library is not part of the repository, and neither is the standard output
  the process writes to. Their behaviour during one run (which calls fail, which events
  the page fires while a call is blocking, when the marker shows, which texts
  \<^verbatim>\<open>print\<close> can write) is a parameter of the model, the record \<open>browser\<close> below; the
  scripts are translated statement by statement over it.
\<close>

subsection \<open>Exceptions\<close>

text \<open>Decimal notation of a natural number.\<close>

definition digit :: "nat \<Rightarrow> char" where
  "digit n = ''0123456789'' ! (n mod 10)"

fun digits :: "nat \<Rightarrow> string" where
  "digits n = (if n < 10 then [digit n] else digits (n div 10) @ [digit (n mod 10)])"

declare digits.simps [simp del]

text \<open>
  \<open>Exception msg\<close> is an instance of Python's \<^verbatim>\<open>Exception\<close> (or of a subclass, as the
  errors of the browser library, \<^verbatim>\<open>UnicodeEncodeError\<close> and \<^verbatim>\<open>OSError\<close> are) whose
  \<^verbatim>\<open>str\<close> is \<open>msg\<close>. The other three are the exceptions whose class derives from
  \<^verbatim>\<open>BaseException\<close> only: \<^verbatim>\<open>KeyboardInterrupt\<close>, \<^verbatim>\<open>SystemExit\<close> with its code, and
  \<open>BaseException msg\<close> for any other such class.
\<close>

datatype exn = Exception string | BaseException string | KeyboardInterrupt | SystemExit nat

fun is_Exception :: "exn \<Rightarrow> bool" where
  "is_Exception (Exception _) = True"
| "is_Exception _ = False"

fun str :: "exn \<Rightarrow> string" where
  "str (Exception msg) = msg"
| "str (BaseException msg) = msg"
| "str KeyboardInterrupt = []"
| "str (SystemExit code) = digits code"

datatype result = Returned | Raised exn

subsection \<open>The observable state\<close>

text \<open>
  A page event has a name (\<^verbatim>\<open>"console"\<close>, \<^verbatim>\<open>"pageerror"\<close>, \<^verbatim>\<open>"load"\<close>, ...) and a
  payload; the payload is modelled by the text the scripts read from it (\<^verbatim>\<open>msg.text\<close> of
  a console message, \<^verbatim>\<open>str(err)\<close> of a page error).
\<close>

datatype event = Event (event_name: string) (payload: string)

text \<open>
  The calls a script makes on the browser library, with their arguments. The last
  argument of \<open>Screenshot\<close> is the keyword argument \<^verbatim>\<open>full_page\<close>: \<open>None\<close> when the
  call does not pass it.
\<close>

datatype call =
    Start
  | Launch
  | New_page
  | On string
  | Goto string
  | Wait_for_selector string nat
  | Screenshot string "bool option"
  | Close
  | Stop

text \<open>
  One run leaves a trace: the library calls in program order, interleaved with the texts
  that \<^verbatim>\<open>print\<close> has written. A call is recorded when it is entered, so what the
  listeners print while the call is blocking follows it. \<open>Stdout s\<close> stands for a call
  \<^verbatim>\<open>print(s)\<close> that returned; a \<^verbatim>\<open>print\<close> that raises leaves no entry.
\<close>

datatype entry = Call call | Stdout string

text \<open>A screenshot file: whether it shows the whole scrollable page, and its pixels.\<close>

datatype png = Png (whole_page: bool) (pixels: string)

text \<open>
  The only callbacks the scripts register call \<^verbatim>\<open>print\<close> once, with a text computed from
  the event, so a listener is the function that computes that text from the payload.
  \<open>listeners\<close> holds the registrations of the page, in registration order.
\<close>

record sys =
  listeners :: "(string \<times> (string \<Rightarrow> string)) list"
  trace :: "entry list"
  files :: "string \<rightharpoonup> png"

definition fresh :: "(string \<rightharpoonup> png) \<Rightarrow> sys" where
  "fresh fs = \<lparr>listeners = [], trace = [], files = fs\<rparr>"

fun calls_of :: "entry list \<Rightarrow> call list" where
  "calls_of [] = []"
| "calls_of (Call c # es) = c # calls_of es"
| "calls_of (Stdout _ # es) = calls_of es"

fun stdout_of :: "entry list \<Rightarrow> string list" where
  "stdout_of [] = []"
| "stdout_of (Call _ # es) = stdout_of es"
| "stdout_of (Stdout s # es) = s # stdout_of es"

fun is_screenshot :: "call \<Rightarrow> bool" where
  "is_screenshot (Screenshot _ _) = True"
| "is_screenshot _ = False"

fun is_wait :: "call \<Rightarrow> bool" where
  "is_wait (Wait_for_selector _ _) = True"
| "is_wait _ = False"

text \<open>\<^verbatim>\<open>print(s)\<close> writes \<open>s\<close> and a line feed to standard output.\<close>

definition newline :: char where
  "newline = CHR 0x0A"




subsection \<open>The browser and the standard output of one run\<close>

text \<open>
  What the browser library does in one run. An \<open>_error\<close> field is \<open>None\<close> when the call
  returns and \<open>Some e\<close> when it raises \<open>e\<close>; an \<open>_events\<close> field lists the page events
  delivered while the call is blocking. \<open>marker_after\<close> is the time in milliseconds, from
  the start of the wait, after which the awaited element is visible (a marker that never
  shows is one that shows later than any limit). \<open>wait_label\<close> and \<open>call_log\<close> are the
  texts the library puts before and after the sentence of its timeout message.

  The last two fields are the standard output of the process. \<open>print_error s\<close> is
  \<open>None\<close> when \<^verbatim>\<open>print(s)\<close> returns and \<open>Some e\<close> when it raises \<open>e\<close> and writes
  nothing (\<^verbatim>\<open>UnicodeEncodeError\<close> for a text the encoding of the stream cannot take,
  \<^verbatim>\<open>OSError\<close> on a broken stream). \<open>flush_error\<close> says that the flush of the stream
  fails when the interpreter exits (a stream that is closed or whose device is full);
  what \<^verbatim>\<open>print\<close> has written to the stream may then not have reached the device.
  The statements below that speak of standard output speak of what \<^verbatim>\<open>print\<close> has
  written.
\<close>

record browser =
  start_error :: "exn option"
  launch_error :: "exn option"
  new_page_error :: "exn option"
  goto_events :: "event list"
  goto_error :: "exn option"
  wait_events :: "event list"
  wait_error :: "exn option"
  marker_after :: nat
  wait_label :: string
  call_log :: string
  shot_events :: "event list"
  shot_error :: "exn option"
  viewport_pixels :: string
  page_pixels :: string
  close_events :: "event list"
  close_error :: "exn option"
  stop_error :: "exn option"
  print_error :: "string \<Rightarrow> exn option"
  flush_error :: bool

type_synonym stmt = "sys \<Rightarrow> result \<times> sys"

definition called :: "call \<Rightarrow> sys \<Rightarrow> sys" where
  "called c w = w\<lparr>trace := trace w @ [Call c]\<rparr>"

text \<open>\<^verbatim>\<open>print(s)\<close> writes the text, or raises and writes nothing.\<close>

definition print :: "browser \<Rightarrow> string \<Rightarrow> stmt" where
  "print b s w =
     (case print_error b s of
        None \<Rightarrow> (Returned, w\<lparr>trace := trace w @ [Stdout s]\<rparr>)
      | Some e \<Rightarrow> (Raised e, w))"

text \<open>
  Delivering an event runs every listener registered under the event's name, in
  registration order. A listener whose \<^verbatim>\<open>print\<close> raises has written nothing. What the
  library then does with the exception of the listener (drop it, or raise it from the
  call that is blocking or from a later call) is the library's matter: it shows in the
  \<open>_error\<close> and \<open>_events\<close> fields of the browser, which are not constrained here.
\<close>

fun heard ::
  "browser \<Rightarrow> (string \<times> (string \<Rightarrow> string)) list \<Rightarrow> event \<Rightarrow> entry list"
where
  "heard b [] ev = []"
| "heard b ((n, h) # ls) ev =
     (if n = event_name ev
      then (case print_error b (h (payload ev)) of
              None \<Rightarrow> Stdout (h (payload ev)) # heard b ls ev
            | Some e \<Rightarrow> heard b ls ev)
      else heard b ls ev)"

fun heard_all ::
  "browser \<Rightarrow> (string \<times> (string \<Rightarrow> string)) list \<Rightarrow> event list \<Rightarrow> entry list"
where
  "heard_all b ls [] = []"
| "heard_all b ls (ev # evs) = heard b ls ev @ heard_all b ls evs"

definition deliver :: "browser \<Rightarrow> event list \<Rightarrow> sys \<Rightarrow> sys" where
  "deliver b evs w = w\<lparr>trace := trace w @ heard_all b (listeners w) evs\<rparr>"

text \<open>A blocking library call: it is entered, events are delivered, it returns or raises.\<close>

definition blocking :: "browser \<Rightarrow> call \<Rightarrow> event list \<Rightarrow> exn option \<Rightarrow> stmt" where
  "blocking b c evs err w =
     ((case err of None \<Rightarrow> Returned | Some e \<Rightarrow> Raised e), deliver b evs (called c w))"

text \<open>
  The library's timeout error is an \<^verbatim>\<open>Exception\<close> whose message names the limit that
  was passed, in milliseconds.
\<close>

definition timeout_error :: "string \<Rightarrow> nat \<Rightarrow> string \<Rightarrow> exn" where
  "timeout_error label t log = Exception (label @ ''Timeout '' @ digits t @ ''ms exceeded.'' @ log)"

text \<open>\<^verbatim>\<open>page.on(name, listener)\<close> registers the listener; it does not block.\<close>

definition page_on :: "string \<Rightarrow> (string \<Rightarrow> string) \<Rightarrow> stmt" where
  "page_on n h w = (Returned, (called (On n) w)\<lparr>listeners := listeners w @ [(n, h)]\<rparr>)"

definition page_goto :: "browser \<Rightarrow> string \<Rightarrow> stmt" where
  "page_goto b url = blocking b (Goto url) (goto_events b) (goto_error b)"

text \<open>
  \<^verbatim>\<open>page.wait_for_selector(selector, timeout=t)\<close> returns once the element is visible and
  raises the timeout error when the limit passes first; a limit of 0 switches the limit
  off. The wait can also fail for another reason (\<open>wait_error\<close>).
\<close>

definition wait_outcome :: "browser \<Rightarrow> nat \<Rightarrow> exn option" where
  "wait_outcome b t =
     (case wait_error b of
        Some e \<Rightarrow> Some e
      | None \<Rightarrow>
          if t = 0 \<or> marker_after b \<le> t then None
          else Some (timeout_error (wait_label b) t (call_log b)))"

definition page_wait_for_selector :: "browser \<Rightarrow> string \<Rightarrow> nat \<Rightarrow> stmt" where
  "page_wait_for_selector b selector t =
     blocking b (Wait_for_selector selector t) (wait_events b) (wait_outcome b t)"

text \<open>
  \<^verbatim>\<open>page.screenshot(path=..., full_page=...)\<close>: the library's default for \<^verbatim>\<open>full_page\<close>
  is false, which captures the viewport only. The file is written when the call returns.
\<close>

definition full_page_default :: bool where
  "full_page_default = False"

definition capture :: "browser \<Rightarrow> bool option \<Rightarrow> png" where
  "capture b full_page =
     (let whole = (case full_page of None \<Rightarrow> full_page_default | Some f \<Rightarrow> f)
      in Png whole (if whole then page_pixels b else viewport_pixels b))"

definition page_screenshot :: "browser \<Rightarrow> string \<Rightarrow> bool option \<Rightarrow> stmt" where
  "page_screenshot b path full_page w =
     (case blocking b (Screenshot path full_page) (shot_events b) (shot_error b) w of
        (Returned, w') \<Rightarrow> (Returned, w'\<lparr>files := (files w')(path \<mapsto> capture b full_page)\<rparr>)
      | (Raised e, w') \<Rightarrow> (Raised e, w'))"

subsection \<open>Python's control flow\<close>

definition seq :: "stmt \<Rightarrow> stmt \<Rightarrow> stmt" where
  "seq first second w =
     (case first w of
        (Returned, w') \<Rightarrow> second w'
      | (Raised e, w') \<Rightarrow> (Raised e, w'))"

text \<open>\<^verbatim>\<open>try: body except Exception as e: handler\<close> catches instances of \<^verbatim>\<open>Exception\<close> only.\<close>

definition try_except_Exception :: "stmt \<Rightarrow> (exn \<Rightarrow> stmt) \<Rightarrow> stmt" where
  "try_except_Exception body handler w =
     (case body w of
        (Returned, w') \<Rightarrow> (Returned, w')
      | (Raised e, w') \<Rightarrow> if is_Exception e then handler e w' else (Raised e, w'))"

text \<open>
  \<^verbatim>\<open>try: body finally: cleanup\<close> runs the cleanup on every path; an exception of the
  cleanup replaces the outcome of the body, otherwise the body's outcome stands.
\<close>

definition try_finally :: "stmt \<Rightarrow> stmt \<Rightarrow> stmt" where
  "try_finally body cleanup w =
     (case body w of
        (r, w') \<Rightarrow>
          (case cleanup w' of
             (Returned, w'') \<Rightarrow> (r, w'')
           | (Raised e, w'') \<Rightarrow> (Raised e, w'')))"

subsection \<open>The probe\<close>

text \<open>
  The two routines are the same text up to three literals: the address, the selector and
  the screenshot path. \<open>verify\<close> is that text; a \<^verbatim>\<open>try\<close> with both an \<^verbatim>\<open>except\<close> and a
  \<^verbatim>\<open>finally\<close> clause is the \<^verbatim>\<open>try ... except\<close> wrapped in the \<^verbatim>\<open>try ... finally\<close>.
\<close>

definition verify :: "string \<Rightarrow> string \<Rightarrow> nat \<Rightarrow> string \<Rightarrow> browser \<Rightarrow> stmt" where
  "verify url selector timeout path b =
     seq (page_on ''console'' (\<lambda>msg. ''Console: '' @ msg))
    (seq (page_on ''pageerror'' (\<lambda>err. ''Page Error: '' @ err))
         (try_finally
            (try_except_Exception
               (seq (page_goto b url) (page_wait_for_selector b selector timeout))
               (\<lambda>e. print b (''Error: '' @ str e)))
            (page_screenshot b path None)))"

definition verify_droid :: "browser \<Rightarrow> stmt" where
  "verify_droid = verify ''http://localhost:3000'' ''text=Droid'' 5000 ''verification.png''"

definition verify_example :: "browser \<Rightarrow> stmt" where
  "verify_example =
     verify ''http://localhost:5173'' ''text=Pi Web UI Example'' 5000 ''example.png''"

subsection \<open>The driving block\<close>

definition sync_playwright_start :: "browser \<Rightarrow> stmt" where
  "sync_playwright_start b = blocking b Start [] (start_error b)"

definition sync_playwright_stop :: "browser \<Rightarrow> stmt" where
  "sync_playwright_stop b = blocking b Stop [] (stop_error b)"

definition chromium_launch :: "browser \<Rightarrow> stmt" where
  "chromium_launch b = blocking b Launch [] (launch_error b)"

definition browser_new_page :: "browser \<Rightarrow> stmt" where
  "browser_new_page b = blocking b New_page [] (new_page_error b)"

definition browser_close :: "browser \<Rightarrow> stmt" where
  "browser_close b = blocking b Close (close_events b) (close_error b)"

text \<open>
  \<^verbatim>\<open>with sync_playwright() as p: body\<close> starts the library; when the start returns, the
  body runs and the library is stopped on every path out of it.
\<close>

definition with_sync_playwright :: "browser \<Rightarrow> stmt \<Rightarrow> stmt" where
  "with_sync_playwright b body =
     seq (sync_playwright_start b) (try_finally body (sync_playwright_stop b))"

definition main :: "(browser \<Rightarrow> stmt) \<Rightarrow> browser \<Rightarrow> stmt" where
  "main probe b =
     with_sync_playwright b
       (seq (chromium_launch b)
       (seq (browser_new_page b)
            (try_finally (probe b) (browser_close b))))"

definition main_droid :: "browser \<Rightarrow> stmt" where
  "main_droid = main verify_droid"

definition main_example :: "browser \<Rightarrow> stmt" where
  "main_example = main verify_example"

text \<open>
  The interpreter ends the process with status 0 when the script runs to its end, with
  status 1 after an uncaught exception that it reports, and with the code of an uncaught
  \<^verbatim>\<open>SystemExit\<close>. When its last flush of standard output fails, the status is 120
  instead. After an uncaught \<^verbatim>\<open>KeyboardInterrupt\<close> the interpreter ends the process by
  the interrupt signal, which a shell reports as status 130.
\<close>

fun uncaught_status :: "exn \<Rightarrow> nat" where
  "uncaught_status (Exception _) = 1"
| "uncaught_status (BaseException _) = 1"
| "uncaught_status KeyboardInterrupt = 130"
| "uncaught_status (SystemExit code) = code"

definition exit_status :: "browser \<Rightarrow> result \<Rightarrow> nat" where
  "exit_status b r =
     (if r = Raised KeyboardInterrupt then 130
      else if flush_error b then 120
      else (case r of Returned \<Rightarrow> 0 | Raised e \<Rightarrow> uncaught_status e))"

subsection \<open>What a run leaves behind\<close>

text \<open>
  The functions of this section are not in the scripts: they describe, from the browser's
  behaviour alone, what a run of the code above produces. The lemmas that follow prove that
  the code produces exactly that.
\<close>

text \<open>The exception that leaves the body of the \<^verbatim>\<open>try\<close>, if any: navigation, then the wait.\<close>

definition escaping :: "browser \<Rightarrow> nat \<Rightarrow> exn option" where
  "escaping b t = (case goto_error b of Some e \<Rightarrow> Some e | None \<Rightarrow> wait_outcome b t)"

definition probe_listeners :: "(string \<times> (string \<Rightarrow> string)) list" where
  "probe_listeners =
     [(''console'', \<lambda>msg. ''Console: '' @ msg), (''pageerror'', \<lambda>err. ''Page Error: '' @ err)]"

text \<open>What the handler writes, and how the \<^verbatim>\<open>try ... except\<close> ends.\<close>

fun caught :: "browser \<Rightarrow> exn option \<Rightarrow> entry list" where
  "caught b None = []"
| "caught b (Some e) =
     (if is_Exception e \<and> print_error b (''Error: '' @ str e) = None
      then [Stdout (''Error: '' @ str e)] else [])"

fun handled :: "browser \<Rightarrow> exn option \<Rightarrow> result" where
  "handled b None = Returned"
| "handled b (Some e) =
     (if is_Exception e
      then (case print_error b (''Error: '' @ str e) of
              None \<Rightarrow> Returned
            | Some e' \<Rightarrow> Raised e')
      else Raised e)"

definition probe_outcome :: "browser \<Rightarrow> nat \<Rightarrow> result" where
  "probe_outcome b t =
     (case shot_error b of
        Some e \<Rightarrow> Raised e
      | None \<Rightarrow> handled b (escaping b t))"

definition probe_trace ::
  "string \<Rightarrow> string \<Rightarrow> nat \<Rightarrow> string \<Rightarrow> browser \<Rightarrow> (string \<times> (string \<Rightarrow> string)) list \<Rightarrow> entry list"
where
  "probe_trace url selector t path b ls =
     [Call (On ''console''), Call (On ''pageerror''), Call (Goto url)] @
     heard_all b ls (goto_events b) @
     (case goto_error b of
        Some e \<Rightarrow> caught b (Some e)
      | None \<Rightarrow>
          Call (Wait_for_selector selector t) # heard_all b ls (wait_events b) @
          caught b (wait_outcome b t)) @
     Call (Screenshot path None) # heard_all b ls (shot_events b)"

definition main_outcome :: "browser \<Rightarrow> nat \<Rightarrow> result" where
  "main_outcome b t =
     (case start_error b of
        Some e \<Rightarrow> Raised e
      | None \<Rightarrow>
          (case stop_error b of
             Some e \<Rightarrow> Raised e
           | None \<Rightarrow>
               (case launch_error b of
                  Some e \<Rightarrow> Raised e
                | None \<Rightarrow>
                    (case new_page_error b of
                       Some e \<Rightarrow> Raised e
                     | None \<Rightarrow>
                         (case close_error b of
                            Some e \<Rightarrow> Raised e
                          | None \<Rightarrow> probe_outcome b t)))))"

definition main_trace ::
  "string \<Rightarrow> string \<Rightarrow> nat \<Rightarrow> string \<Rightarrow> browser \<Rightarrow> (string \<times> (string \<Rightarrow> string)) list \<Rightarrow> entry list"
where
  "main_trace url selector t path b ls =
     Call Start #
     (case start_error b of
        Some e \<Rightarrow> []
      | None \<Rightarrow>
          Call Launch #
          (case launch_error b of
             Some e \<Rightarrow> []
           | None \<Rightarrow>
               Call New_page #
               (case new_page_error b of
                  Some e \<Rightarrow> []
                | None \<Rightarrow>
                    probe_trace url selector t path b ls @
                    Call Close # heard_all b ls (close_events b))) @
          [Call Stop])"

text \<open>
  The lines the two observers are to write for a sequence of page events, in the words of
  the specification: a console message gives \<^verbatim>\<open>Console: <text>\<close>, an uncaught page
  error gives \<^verbatim>\<open>Page Error: <text>\<close>, any other event gives nothing.
\<close>

fun forwarded :: "event list \<Rightarrow> string list" where
  "forwarded [] = []"
| "forwarded (ev # evs) =
     (if event_name ev = ''console'' then (''Console: '' @ payload ev) # forwarded evs
      else if event_name ev = ''pageerror'' then (''Page Error: '' @ payload ev) # forwarded evs
      else forwarded evs)"

text \<open>Of these lines, those that \<^verbatim>\<open>print\<close> writes.\<close>

definition written :: "browser \<Rightarrow> string list \<Rightarrow> string list" where
  "written b ss = filter (\<lambda>s. print_error b s = None) ss"






subsection \<open>Sample runs\<close>

text \<open>
  \<open>served\<close> is a run against an application that answers: the marker shows 1200 ms into
  the wait, the page writes one console message and fires its load event during
  navigation, and throws one uncaught error during the wait. The other runs used below
  are variations of it.
\<close>

definition served :: browser where
  "served =
     \<lparr>start_error = None, launch_error = None, new_page_error = None,
      goto_events = [Event ''console'' ''app ready'', Event ''load'' []],
      goto_error = None,
      wait_events = [Event ''pageerror'' ''TypeError: x is undefined''],
      wait_error = None,
      marker_after = 1200,
      wait_label = ''Page.wait_for_selector: '',
      call_log = newline # ''Call log:'' @ newline # ''  - waiting for the selector to be visible'',
      shot_events = [], shot_error = None,
      viewport_pixels = ''viewport'', page_pixels = ''whole page'',
      close_events = [], close_error = None, stop_error = None,
      print_error = (\<lambda>s. None), flush_error = False\<rparr>"

text \<open>The marker does not show in time.\<close>

definition slow :: browser where
  "slow = served\<lparr>marker_after := 9000\<rparr>"

text \<open>Nothing listens on the port: navigation fails.\<close>

definition unreachable :: browser where
  "unreachable =
     served\<lparr>goto_events := [], marker_after := 9000,
       goto_error := Some (Exception ''Page.goto: net::ERR_CONNECTION_REFUSED at http://localhost:3000/'')\<rparr>"

text \<open>The page is gone when the screenshot is taken.\<close>

definition crashed :: browser where
  "crashed = slow\<lparr>shot_error := Some (Exception ''Page.screenshot: Target crashed'')\<rparr>"

text \<open>The user interrupts the script during navigation.\<close>

definition interrupted :: browser where
  "interrupted = served\<lparr>goto_events := [], goto_error := Some KeyboardInterrupt\<rparr>"

text \<open>The browser starts, but no page can be opened.\<close>

definition no_page :: browser where
  "no_page = served\<lparr>new_page_error := Some (Exception ''Browser.new_page: Target closed'')\<rparr>"

text \<open>The page writes a console message of two lines while the wait runs out.\<close>

definition chatty :: browser where
  "chatty =
     slow\<lparr>wait_events := [Event ''console'' (''fetch failed'' @ newline # ''Error: 503'')]\<rparr>"

text \<open>A second visit of the same application: same course of events, other texts.\<close>

definition revisited :: browser where
  "revisited =
     served\<lparr>goto_events := [Event ''console'' ''app ready (cached)'', Event ''load'' []],
       marker_after := 800, viewport_pixels := ''viewport again''\<rparr>"

text \<open>The page goes on writing while the screenshot is taken and while the browser closes.\<close>

definition noisy :: browser where
  "noisy =
     served\<lparr>shot_events := [Event ''console'' ''resize''],
       close_events := [Event ''pageerror'' ''ReferenceError: teardown'']\<rparr>"

text \<open>The wait fails before its limit: the page is closed under it.\<close>

definition closed :: browser where
  "closed = slow\<lparr>wait_error := Some (Exception ''Page.wait_for_selector: Target closed'')\<rparr>"

text \<open>
  A standard output whose encoding cannot take the letter e with an acute accent (two
  bytes in UTF-8, the first of which is C3): \<^verbatim>\<open>print\<close> raises on a text that has it.
\<close>

definition e_acute :: string where
  "e_acute = [CHR 0xC3, CHR 0xA9]"

definition ascii_stdout :: "string \<Rightarrow> exn option" where
  "ascii_stdout s =
     (if CHR 0xC3 \<in> set s
      then Some (Exception ''UnicodeEncodeError: ascii codec cannot encode character'')
      else None)"

text \<open>The page writes a console message with that letter to such a standard output.\<close>

definition accented :: browser where
  "accented =
     served\<lparr>goto_events := [Event ''console'' (''caf'' @ e_acute), Event ''console'' ''menu''],
       print_error := ascii_stdout\<rparr>"

text \<open>Navigation fails with a message that has that letter, on such a standard output.\<close>

definition garbled :: browser where
  "garbled =
     unreachable\<lparr>goto_error := Some (Exception (''Page.goto: caf'' @ e_acute)),
       print_error := ascii_stdout\<rparr>"

text \<open>The device behind standard output is full: the last flush fails.\<close>

definition full_device :: browser where
  "full_device = served\<lparr>flush_error := True\<rparr>"

text \<open>The pipe behind standard output is broken: every \<^verbatim>\<open>print\<close> raises.\<close>

definition broken_pipe :: browser where
  "broken_pipe =
     slow\<lparr>print_error := (\<lambda>s. Some (Exception ''BrokenPipeError: [Errno 32] Broken pipe''))\<rparr>"

section \<open>The code produces what the description says\<close>

lemmas stmt_defs = verify_def seq_def try_finally_def try_except_Exception_def page_on_def
  page_goto_def page_wait_for_selector_def page_screenshot_def blocking_def deliver_def
  called_def print_def

lemmas main_defs = main_def with_sync_playwright_def sync_playwright_start_def
  sync_playwright_stop_def chromium_launch_def browser_new_page_def browser_close_def
  seq_def try_finally_def blocking_def deliver_def called_def

lemmas sample_defs = served_def slow_def unreachable_def crashed_def interrupted_def
  no_page_def chatty_def revisited_def noisy_def closed_def accented_def garbled_def
  full_device_def broken_pipe_def e_acute_def ascii_stdout_def

lemma verify_result: "fst (verify u s t p b w) = probe_outcome b t"
  by (simp add: stmt_defs probe_outcome_def escaping_def split: option.splits)

lemma verify_listeners: "listeners (snd (verify u s t p b w)) = listeners w @ probe_listeners"
  by (simp add: stmt_defs probe_listeners_def split: option.splits)

lemma verify_trace:
  "trace (snd (verify u s t p b w)) =
     trace w @ probe_trace u s t p b (listeners w @ probe_listeners)"
  by (simp add: stmt_defs probe_trace_def probe_listeners_def split: option.splits)

lemma verify_files:
  "files (snd (verify u s t p b w)) =
     (case shot_error b of None \<Rightarrow> (files w)(p \<mapsto> capture b None) | Some e \<Rightarrow> files w)"
  by (simp add: stmt_defs split: option.splits)

lemma main_result: "fst (main (verify u s t p) b w) = main_outcome b t"
  using verify_result [of u s t p b "called New_page (called Launch (called Start w))"]
  by (cases "verify u s t p b (called New_page (called Launch (called Start w)))")
     (simp add: main_defs main_outcome_def split: option.splits result.splits)

lemma main_trace:
  "trace (snd (main (verify u s t p) b w)) =
     trace w @ main_trace u s t p b (listeners w @ probe_listeners)"
  using verify_trace [of u s t p b "called New_page (called Launch (called Start w))"]
    verify_listeners [of u s t p b "called New_page (called Launch (called Start w))"]
  by (cases "verify u s t p b (called New_page (called Launch (called Start w)))")
     (simp add: main_defs main_trace_def split: option.splits result.splits)

lemma main_files:
  "files (snd (main (verify u s t p) b w)) =
     (if start_error b = None \<and> launch_error b = None \<and> new_page_error b = None
      then files (snd (verify u s t p b w)) else files w)"
  using verify_files [of u s t p b "called New_page (called Launch (called Start w))"]
    verify_files [of u s t p b w]
  by (cases "verify u s t p b (called New_page (called Launch (called Start w)))")
     (simp add: main_defs split: option.splits result.splits)

subsection \<open>Traces and lines\<close>

lemma calls_of_append: "calls_of (xs @ ys) = calls_of xs @ calls_of ys"
  by (induction xs rule: calls_of.induct) simp_all

lemma stdout_of_append: "stdout_of (xs @ ys) = stdout_of xs @ stdout_of ys"
  by (induction xs rule: stdout_of.induct) simp_all

lemma calls_of_heard: "calls_of (heard b ls ev) = []"
  by (induction b ls ev rule: heard.induct) (simp_all split: option.splits)

lemma calls_of_heard_all: "calls_of (heard_all b ls evs) = []"
  by (induction evs) (simp_all add: calls_of_append calls_of_heard)

lemma calls_of_caught: "calls_of (caught b err) = []"
  by (cases err) simp_all

lemma forwarded_Cons: "forwarded (ev # evs) = forwarded [ev] @ forwarded evs"
  by simp

lemma written_append: "written b (xs @ ys) = written b xs @ written b ys"
  by (simp add: written_def)

lemma heard_probe: "heard b probe_listeners ev = map Stdout (written b (forwarded [ev]))"
proof (cases "event_name ev = ''console''")
  case True
  then show ?thesis
    by (simp add: probe_listeners_def written_def split: option.splits)
next
  case False
  then have c: "''console'' \<noteq> event_name ev" by auto
  show ?thesis
  proof (cases "event_name ev = ''pageerror''")
    case True
    with c show ?thesis
      by (simp add: probe_listeners_def written_def split: option.splits)
  next
    case False
    then have "''pageerror'' \<noteq> event_name ev" by auto
    with c False show ?thesis
      by (simp add: probe_listeners_def written_def)
  qed
qed

lemma heard_all_probe:
  "heard_all b probe_listeners evs = map Stdout (written b (forwarded evs))"
proof (induction evs)
  case Nil
  then show ?case by (simp add: written_def)
next
  case (Cons ev evs)
  have "heard_all b probe_listeners (ev # evs) =
      heard b probe_listeners ev @ heard_all b probe_listeners evs"
    by simp
  also have "\<dots> = map Stdout (written b (forwarded [ev])) @ map Stdout (written b (forwarded evs))"
    by (simp only: heard_probe Cons.IH)
  also have "\<dots> = map Stdout (written b (forwarded (ev # evs)))"
    by (simp only: forwarded_Cons [of ev evs] written_append map_append)
  finally show ?case .
qed

lemma stdout_of_map_Stdout: "stdout_of (map Stdout ss) = ss"
  by (induction ss) simp_all

lemma calls_of_probe_trace:
  "calls_of (probe_trace u s t p b ls) =
     [On ''console'', On ''pageerror'', Goto u] @
     (if goto_error b = None then [Wait_for_selector s t] else []) @ [Screenshot p None]"
  by (simp add: probe_trace_def calls_of_append calls_of_heard_all calls_of_caught
        split: option.splits)





lemma digits_5000: "digits 5000 = ''5000''"
  by code_simp

section \<open>The probe\<close>

subsection \<open>When the probe returns\<close>

text \<open>
  Claim C1, as amended. The claim says that the probe never raises to its caller. The
  code guards navigation and the wait only, and its handler prints: the probe returns
  normally whenever the screenshot call returns and every exception raised by navigation
  or by the wait is an instance of \<^verbatim>\<open>Exception\<close> whose \<^verbatim>\<open>Error:\<close> text \<^verbatim>\<open>print\<close>
  can write. An exception of the screenshot call, which stands in the \<^verbatim>\<open>finally\<close>
  clause, reaches the caller; so does, after the screenshot was taken, an exception of
  navigation or of the wait that is not an instance of \<^verbatim>\<open>Exception\<close>, and so does the
  exception of a \<^verbatim>\<open>print\<close> that fails in the handler.
\<close>

theorem probe_returns_unless_capture_fails:
  "(shot_error b = None \<and>
    (\<forall>e. escaping b 5000 = Some e \<longrightarrow>
       is_Exception e \<and> print_error b (''Error: '' @ str e) = None) \<longrightarrow>
      fst (verify_droid b w) = Returned \<and> fst (verify_example b w) = Returned) \<and>
   (\<forall>e. shot_error b = Some e \<longrightarrow>
      fst (verify_droid b w) = Raised e \<and> fst (verify_example b w) = Raised e) \<and>
   (\<forall>e. shot_error b = None \<and> escaping b 5000 = Some e \<and> \<not> is_Exception e \<longrightarrow>
      fst (verify_droid b w) = Raised e \<and> fst (verify_example b w) = Raised e) \<and>
   (\<forall>e e'. shot_error b = None \<and> escaping b 5000 = Some e \<and> is_Exception e \<and>
      print_error b (''Error: '' @ str e) = Some e' \<longrightarrow>
      fst (verify_droid b w) = Raised e' \<and> fst (verify_example b w) = Raised e')"
  by (cases "escaping b 5000")
     (auto simp add: verify_droid_def verify_example_def verify_result probe_outcome_def
        split: option.splits)

text \<open>
  The four cases at sample runs: a wait that runs out, a screenshot that fails, an
  interrupt during navigation, an error text that standard output cannot encode.
\<close>

theorem probe_returns_unless_capture_fails_witness:
  "shot_error slow = None \<and>
   escaping slow 5000 =
     Some (Exception (''Page.wait_for_selector: Timeout 5000ms exceeded.'' @ call_log slow)) \<and>
   print_error slow
     (''Error: '' @ ''Page.wait_for_selector: Timeout 5000ms exceeded.'' @ call_log slow) = None \<and>
   fst (verify_droid slow (fresh Map.empty)) = Returned \<and>
   fst (verify_example slow (fresh Map.empty)) = Returned \<and>
   shot_error crashed = Some (Exception ''Page.screenshot: Target crashed'') \<and>
   fst (verify_droid crashed (fresh Map.empty)) =
     Raised (Exception ''Page.screenshot: Target crashed'') \<and>
   escaping interrupted 5000 = Some KeyboardInterrupt \<and>
   fst (verify_example interrupted (fresh Map.empty)) = Raised KeyboardInterrupt \<and>
   escaping garbled 5000 = Some (Exception (''Page.goto: caf'' @ e_acute)) \<and>
   print_error garbled (''Error: '' @ ''Page.goto: caf'' @ e_acute) =
     Some (Exception ''UnicodeEncodeError: ascii codec cannot encode character'') \<and>
   fst (verify_droid garbled (fresh Map.empty)) =
     Raised (Exception ''UnicodeEncodeError: ascii codec cannot encode character'')"
proof -
  let ?t = "''Page.wait_for_selector: Timeout 5000ms exceeded.'' @ call_log slow"
  let ?u = "Exception ''UnicodeEncodeError: ascii codec cannot encode character''"
  have e: "escaping slow 5000 = Some (Exception ?t)"
    by (simp add: escaping_def wait_outcome_def timeout_error_def digits_5000 sample_defs)
  have p: "print_error slow (''Error: '' @ ?t) = None"
    by (simp add: sample_defs)
  have s: "shot_error slow = None" "shot_error interrupted = None" "shot_error garbled = None"
    "shot_error crashed = Some (Exception ''Page.screenshot: Target crashed'')"
    by (simp_all add: sample_defs)
  have i: "escaping interrupted 5000 = Some KeyboardInterrupt"
    by (simp add: escaping_def sample_defs)
  have g: "escaping garbled 5000 = Some (Exception (''Page.goto: caf'' @ e_acute))"
    by (simp add: escaping_def sample_defs)
  have q: "print_error garbled (''Error: '' @ ''Page.goto: caf'' @ e_acute) = Some ?u"
    by (simp add: sample_defs)
  have a: "\<forall>x. escaping slow 5000 = Some x \<longrightarrow>
      is_Exception x \<and> print_error slow (''Error: '' @ str x) = None"
    using p by (simp add: e)
  from probe_returns_unless_capture_fails [of slow "fresh Map.empty"] s(1) a
  have r1: "fst (verify_droid slow (fresh Map.empty)) = Returned \<and>
      fst (verify_example slow (fresh Map.empty)) = Returned"
    by blast
  from probe_returns_unless_capture_fails [of crashed "fresh Map.empty"] s(4)
  have r2: "fst (verify_droid crashed (fresh Map.empty)) =
      Raised (Exception ''Page.screenshot: Target crashed'')"
    by blast
  have n: "\<not> is_Exception KeyboardInterrupt" by simp
  from probe_returns_unless_capture_fails [of interrupted "fresh Map.empty"] s(2) i n
  have r3: "fst (verify_example interrupted (fresh Map.empty)) = Raised KeyboardInterrupt"
    by blast
  have y: "is_Exception (Exception (''Page.goto: caf'' @ e_acute))"
    "print_error garbled (''Error: '' @ str (Exception (''Page.goto: caf'' @ e_acute))) = Some ?u"
    using q by simp_all
  from probe_returns_unless_capture_fails [of garbled "fresh Map.empty"] s(3) g y
  have r4: "fst (verify_droid garbled (fresh Map.empty)) = Raised ?u"
    by blast
  from e p s(1,4) i g q r1 r2 r3 r4 show ?thesis by blast
qed

text \<open>
  Claim C1 as stated fails: with a page that is gone when the screenshot is taken, with
  an interrupt during navigation, and with an error text that standard output cannot
  encode, the probe raises to its caller.
\<close>

theorem probe_can_raise:
  "fst (verify_droid crashed (fresh Map.empty)) =
     Raised (Exception ''Page.screenshot: Target crashed'') \<and>
   fst (verify_example interrupted (fresh Map.empty)) = Raised KeyboardInterrupt \<and>
   fst (verify_droid garbled (fresh Map.empty)) =
     Raised (Exception ''UnicodeEncodeError: ascii codec cannot encode character'')"
  by (simp add: verify_droid_def verify_example_def verify_result probe_outcome_def
        escaping_def sample_defs)

subsection \<open>The screenshot call\<close>

text \<open>
  Claim C2. Whatever navigation, the wait and the capture do, a run of the probe makes
  exactly one screenshot call, and it is the last action of the routine: it is the last
  library call, and all that follows it in the trace is what the listeners print while
  the call is blocking.
\<close>

theorem screenshot_once_and_last:
  "length (filter is_screenshot (calls_of (trace (snd (verify_droid b w))))) =
     Suc (length (filter is_screenshot (calls_of (trace w)))) \<and>
   last (calls_of (trace (snd (verify_droid b w)))) = Screenshot ''verification.png'' None \<and>
   (\<exists>pre. trace (snd (verify_droid b w)) =
      pre @ Call (Screenshot ''verification.png'' None) #
        heard_all b (listeners (snd (verify_droid b w))) (shot_events b)) \<and>
   length (filter is_screenshot (calls_of (trace (snd (verify_example b w))))) =
     Suc (length (filter is_screenshot (calls_of (trace w)))) \<and>
   last (calls_of (trace (snd (verify_example b w)))) = Screenshot ''example.png'' None \<and>
   (\<exists>pre. trace (snd (verify_example b w)) =
      pre @ Call (Screenshot ''example.png'' None) #
        heard_all b (listeners (snd (verify_example b w))) (shot_events b))"
proof -
  have once: "length (filter is_screenshot (calls_of (trace (snd (verify u s t p b w))))) =
      Suc (length (filter is_screenshot (calls_of (trace w))))" for u s t p
    by (simp add: verify_trace calls_of_append calls_of_probe_trace)
  have lst: "last (calls_of (trace (snd (verify u s t p b w)))) = Screenshot p None"
    for u s t p
    by (simp add: verify_trace calls_of_append calls_of_probe_trace)
  have after: "\<exists>pre. trace (snd (verify u s t p b w)) =
      pre @ Call (Screenshot p None) #
        heard_all b (listeners (snd (verify u s t p b w))) (shot_events b)"
    for u s t p
    by (simp add: verify_trace verify_listeners probe_trace_def)
  show ?thesis
    unfolding verify_droid_def verify_example_def
    using once lst after by blast
qed

text \<open>
  Claim C3, as amended. The claim says that the screenshot is a full-page one, written in
  every run. The one screenshot call of a run names the fixed path and does not pass
  \<^verbatim>\<open>full_page\<close>, so the library captures the viewport; the file holds that capture
  whenever the call returns, and the files are left as they were when it raises.
\<close>

theorem screenshot_of_viewport:
  "filter is_screenshot (calls_of (trace (snd (verify_droid b w)))) =
     filter is_screenshot (calls_of (trace w)) @ [Screenshot ''verification.png'' None] \<and>
   filter is_screenshot (calls_of (trace (snd (verify_example b w)))) =
     filter is_screenshot (calls_of (trace w)) @ [Screenshot ''example.png'' None] \<and>
   (shot_error b = None \<longrightarrow>
      files (snd (verify_droid b w)) =
        (files w)(''verification.png'' \<mapsto> Png False (viewport_pixels b)) \<and>
      files (snd (verify_example b w)) =
        (files w)(''example.png'' \<mapsto> Png False (viewport_pixels b))) \<and>
   (shot_error b \<noteq> None \<longrightarrow>
      files (snd (verify_droid b w)) = files w \<and> files (snd (verify_example b w)) = files w)"
  by (auto simp add: verify_droid_def verify_example_def verify_files verify_trace
        calls_of_append calls_of_probe_trace capture_def full_page_default_def)

theorem screenshot_of_viewport_witness:
  "shot_error served = None \<and>
   files (snd (verify_droid served (fresh Map.empty))) =
     (files (fresh Map.empty))(''verification.png'' \<mapsto> Png False (viewport_pixels served)) \<and>
   shot_error crashed \<noteq> None \<and>
   files (snd (verify_example crashed (fresh Map.empty))) = files (fresh Map.empty)"
proof -
  have s: "shot_error served = None" "shot_error crashed \<noteq> None"
    by (simp_all add: sample_defs)
  show ?thesis
    using screenshot_of_viewport [of served "fresh Map.empty"]
      screenshot_of_viewport [of crashed "fresh Map.empty"] s
    by simp
qed

text \<open>
  Claim C3 as stated fails: against an application that answers the file holds a capture
  of the viewport, not of the whole page, and when the capture fails no file is written.
\<close>

theorem screenshot_not_full_page:
  "files (snd (verify_droid served (fresh Map.empty))) ''verification.png'' =
     Some (Png False ''viewport'') \<and>
   files (snd (verify_example crashed (fresh Map.empty))) ''example.png'' = None"
  by (simp add: verify_droid_def verify_example_def verify_files capture_def
        full_page_default_def fresh_def sample_defs)

subsection \<open>Exceptions of navigation and of the wait\<close>








lemma escaping_unreachable:
  "escaping unreachable 5000 =
     Some (Exception ''Page.goto: net::ERR_CONNECTION_REFUSED at http://localhost:3000/'')"
  by (simp add: escaping_def sample_defs)










subsection \<open>Standard output of a run\<close>

lemma stdout_of_heard_all_probe:
  "stdout_of (heard_all b probe_listeners evs) = written b (forwarded evs)"
  by (simp add: heard_all_probe stdout_of_map_Stdout)

lemma stdout_of_caught:
  "stdout_of (caught b err) =
     (case err of
        None \<Rightarrow> []
      | Some e \<Rightarrow>
          if is_Exception e \<and> print_error b (''Error: '' @ str e) = None
          then [''Error: '' @ str e] else [])"
  by (cases err) simp_all

lemma stdout_of_probe_trace:
  "stdout_of (probe_trace u s t p b probe_listeners) =
     written b (forwarded (goto_events b)) @
     (if goto_error b = None then written b (forwarded (wait_events b)) else []) @
     stdout_of (caught b (escaping b t)) @ written b (forwarded (shot_events b))"
  by (simp add: probe_trace_def stdout_of_append stdout_of_heard_all_probe escaping_def
        split: option.splits)

lemma verify_stdout:
  "listeners w = [] \<Longrightarrow>
   stdout_of (trace (snd (verify u s t p b w))) =
     stdout_of (trace w) @ written b (forwarded (goto_events b)) @
     (if goto_error b = None then written b (forwarded (wait_events b)) else []) @
     stdout_of (caught b (escaping b t)) @ written b (forwarded (shot_events b))"
  by (simp add: verify_trace stdout_of_append stdout_of_probe_trace)






lemma forwarded_append: "forwarded (xs @ ys) = forwarded xs @ forwarded ys"
  by (induction xs) simp_all




lemma timeout_escapes:
  "goto_error b = None \<Longrightarrow> wait_error b = None \<Longrightarrow> 5000 < marker_after b \<Longrightarrow>
   escaping b 5000 =
     Some (Exception (wait_label b @ ''Timeout 5000ms exceeded.'' @ call_log b))"
  by (simp add: escaping_def wait_outcome_def timeout_error_def digits_5000)








subsection \<open>The two observers\<close>








subsection \<open>Running the probe again\<close>










text \<open>At two visits of an application that answers.\<close>



subsection \<open>The limit of the wait\<close>

text \<open>
  Claim C10. In both scripts the wait is called with a limit of 5000 milliseconds: when
  navigation returns, the one wait call of the run carries the script's selector and the
  limit 5000. When the marker has not shown after 5000 ms, the wait fails with the
  library's timeout error, which names 5000 ms and which the probe prints (whenever
  \<^verbatim>\<open>print\<close> can write it); when the marker shows within 5000 ms, the wait returns and
  the run writes nothing but the lines forwarded from the page. (That the specification
  does not state the value is a remark about the specification, not about the code.)
\<close>

theorem wait_limit_5000:
  "(goto_error b = None \<longrightarrow>
      filter is_wait (calls_of (trace (snd (verify_droid b w)))) =
        filter is_wait (calls_of (trace w)) @ [Wait_for_selector ''text=Droid'' 5000] \<and>
      filter is_wait (calls_of (trace (snd (verify_example b w)))) =
        filter is_wait (calls_of (trace w)) @ [Wait_for_selector ''text=Pi Web UI Example'' 5000]) \<and>
   (goto_error b = None \<and> wait_error b = None \<and> 5000 < marker_after b \<longrightarrow>
      escaping b 5000 =
        Some (Exception (wait_label b @ ''Timeout 5000ms exceeded.'' @ call_log b)) \<and>
      (print_error b
         (''Error: '' @ wait_label b @ ''Timeout 5000ms exceeded.'' @ call_log b) = None \<longrightarrow>
       Stdout (''Error: '' @ wait_label b @ ''Timeout 5000ms exceeded.'' @ call_log b) \<in>
         set (trace (snd (verify_droid b w))) \<and>
       Stdout (''Error: '' @ wait_label b @ ''Timeout 5000ms exceeded.'' @ call_log b) \<in>
         set (trace (snd (verify_example b w))))) \<and>
   (goto_error b = None \<and> wait_error b = None \<and> marker_after b \<le> 5000 \<and> listeners w = [] \<longrightarrow>
      escaping b 5000 = None \<and>
      stdout_of (trace (snd (verify_droid b w))) =
        stdout_of (trace w) @ written b (forwarded (goto_events b)) @
        written b (forwarded (wait_events b)) @ written b (forwarded (shot_events b)) \<and>
      stdout_of (trace (snd (verify_example b w))) =
        stdout_of (trace w) @ written b (forwarded (goto_events b)) @
        written b (forwarded (wait_events b)) @ written b (forwarded (shot_events b)))"
proof -
  have calls: "filter is_wait (calls_of (trace (snd (verify u s 5000 p b w)))) =
      filter is_wait (calls_of (trace w)) @ [Wait_for_selector s 5000]"
    if "goto_error b = None" for u s p
    using that by (simp add: verify_trace calls_of_append calls_of_probe_trace)
  have late: "Stdout (''Error: '' @ wait_label b @ ''Timeout 5000ms exceeded.'' @ call_log b) \<in>
        set (trace (snd (verify u s 5000 p b w)))"
    if "goto_error b = None" "wait_error b = None" "5000 < marker_after b"
      "print_error b
         (''Error: '' @ wait_label b @ ''Timeout 5000ms exceeded.'' @ call_log b) = None"
    for u s p
    using that(1,4) timeout_escapes [OF that(1-3)]
    by (simp add: verify_trace probe_trace_def escaping_def)
  have early: "escaping b 5000 = None"
    if "goto_error b = None" "wait_error b = None" "marker_after b \<le> 5000"
    using that by (simp add: escaping_def wait_outcome_def)
  have quiet: "stdout_of (trace (snd (verify u s 5000 p b w))) =
        stdout_of (trace w) @ written b (forwarded (goto_events b)) @
        written b (forwarded (wait_events b)) @ written b (forwarded (shot_events b))"
    if "goto_error b = None" "wait_error b = None" "marker_after b \<le> 5000" "listeners w = []"
    for u s p
    using that early [OF that(1-3)] by (simp add: verify_stdout)
  show ?thesis
    unfolding verify_droid_def verify_example_def
    using calls late timeout_escapes early quiet by blast
qed

text \<open>At a run in which the marker shows after 9 seconds, and one in which it shows in time.\<close>

theorem wait_limit_5000_witness:
  "goto_error slow = None \<and> wait_error slow = None \<and> 5000 < marker_after slow \<and>
   print_error slow
     (''Error: '' @ wait_label slow @ ''Timeout 5000ms exceeded.'' @ call_log slow) = None \<and>
   filter is_wait (calls_of (trace (snd (verify_droid slow (fresh Map.empty))))) =
     filter is_wait (calls_of (trace (fresh Map.empty))) @ [Wait_for_selector ''text=Droid'' 5000] \<and>
   Stdout (''Error: '' @ wait_label slow @ ''Timeout 5000ms exceeded.'' @ call_log slow) \<in>
     set (trace (snd (verify_droid slow (fresh Map.empty)))) \<and>
   goto_error served = None \<and> wait_error served = None \<and> marker_after served \<le> 5000 \<and>
   listeners (fresh Map.empty) = [] \<and>
   stdout_of (trace (snd (verify_example served (fresh Map.empty)))) =
     stdout_of (trace (fresh Map.empty)) @ written served (forwarded (goto_events served)) @
     written served (forwarded (wait_events served)) @
     written served (forwarded (shot_events served))"
proof -
  have a: "goto_error slow = None" "wait_error slow = None" "5000 < marker_after slow"
    "goto_error served = None" "wait_error served = None" "marker_after served \<le> 5000"
    "listeners (fresh Map.empty) = []"
    "print_error slow
       (''Error: '' @ wait_label slow @ ''Timeout 5000ms exceeded.'' @ call_log slow) = None"
    by (simp_all add: sample_defs fresh_def)
  show ?thesis
    using wait_limit_5000 [of slow "fresh Map.empty"] wait_limit_5000 [of served "fresh Map.empty"] a
    by blast
qed

section \<open>The driving block\<close>

lemma calls_of_main_trace:
  "calls_of (main_trace u s t p b ls) =
     Start #
     (if start_error b \<noteq> None then []
      else Launch #
        (if launch_error b \<noteq> None then []
         else New_page #
           (if new_page_error b \<noteq> None then []
            else [On ''console'', On ''pageerror'', Goto u] @
              (if goto_error b = None then [Wait_for_selector s t] else []) @
              [Screenshot p None, Close])) @
        [Stop])"
  by (simp add: main_trace_def calls_of_append calls_of_heard_all calls_of_probe_trace
        split: option.splits)

lemma main_calls:
  "calls_of (trace (snd (main (verify u s t p) b (fresh fs)))) =
     calls_of (main_trace u s t p b probe_listeners)"
  by (simp add: main_trace fresh_def)

text \<open>
  Claim C5, as amended. The claim says that \<^verbatim>\<open>browser.close()\<close> is executed on every
  exit path, also when page creation raises. The \<^verbatim>\<open>try ... finally\<close> of the driving
  block begins after the page was opened: once the library has started, the browser is
  launched and the page is opened, \<^verbatim>\<open>browser.close()\<close> is called exactly once, right
  after the screenshot call of the probe and whatever the probe did, and the library is
  stopped after it. When the launch or the page creation raises, \<^verbatim>\<open>browser.close()\<close> is
  not called; the exit of the \<^verbatim>\<open>with\<close> statement stops the library. When the start of
  the library raises, nothing else is called.
\<close>

theorem close_after_page_opened:
  "(start_error b = None \<and> launch_error b = None \<and> new_page_error b = None \<longrightarrow>
      count_list (calls_of (trace (snd (main_droid b (fresh fs))))) Close = 1 \<and>
      (\<exists>pre. calls_of (trace (snd (main_droid b (fresh fs)))) =
         pre @ [Screenshot ''verification.png'' None, Close, Stop]) \<and>
      count_list (calls_of (trace (snd (main_example b (fresh fs))))) Close = 1 \<and>
      (\<exists>pre. calls_of (trace (snd (main_example b (fresh fs)))) =
         pre @ [Screenshot ''example.png'' None, Close, Stop])) \<and>
   (start_error b = None \<and> launch_error b = None \<and> new_page_error b \<noteq> None \<longrightarrow>
      calls_of (trace (snd (main_droid b (fresh fs)))) = [Start, Launch, New_page, Stop] \<and>
      calls_of (trace (snd (main_example b (fresh fs)))) = [Start, Launch, New_page, Stop]) \<and>
   (start_error b = None \<and> launch_error b \<noteq> None \<longrightarrow>
      calls_of (trace (snd (main_droid b (fresh fs)))) = [Start, Launch, Stop] \<and>
      calls_of (trace (snd (main_example b (fresh fs)))) = [Start, Launch, Stop]) \<and>
   (start_error b \<noteq> None \<longrightarrow>
      calls_of (trace (snd (main_droid b (fresh fs)))) = [Start] \<and>
      calls_of (trace (snd (main_example b (fresh fs)))) = [Start])"
  unfolding main_droid_def main_example_def verify_droid_def verify_example_def main_calls
    calls_of_main_trace
  by auto

theorem close_after_page_opened_witness:
  "start_error crashed = None \<and> launch_error crashed = None \<and> new_page_error crashed = None \<and>
   count_list (calls_of (trace (snd (main_droid crashed (fresh Map.empty))))) Close = 1 \<and>
   (\<exists>pre. calls_of (trace (snd (main_droid crashed (fresh Map.empty)))) =
         pre @ [Screenshot ''verification.png'' None, Close, Stop]) \<and>
   new_page_error no_page \<noteq> None \<and>
   calls_of (trace (snd (main_example no_page (fresh Map.empty)))) = [Start, Launch, New_page, Stop]"
proof -
  have c: "start_error crashed = None" "launch_error crashed = None"
    "new_page_error crashed = None"
    by (simp_all add: sample_defs)
  have n: "start_error no_page = None" "launch_error no_page = None"
    "new_page_error no_page \<noteq> None"
    by (simp_all add: sample_defs)
  show ?thesis
    using close_after_page_opened [of crashed Map.empty]
      close_after_page_opened [of no_page Map.empty] c n
    by simp
qed

text \<open>
  Claim C5 as stated fails: when no page can be opened, the run ends without a call of
  \<^verbatim>\<open>browser.close()\<close>.
\<close>

theorem no_close_without_page:
  "calls_of (trace (snd (main_droid no_page (fresh Map.empty)))) = [Start, Launch, New_page, Stop] \<and>
   fst (main_droid no_page (fresh Map.empty)) = Raised (Exception ''Browser.new_page: Target closed'')"
  by (simp add: main_droid_def verify_droid_def main_calls calls_of_main_trace main_result
        main_outcome_def sample_defs)

text \<open>
  Claim C6, as amended. The claim says that the process ends with status 0 for every
  outcome, also when the screenshot capture fails. The status is 0 whenever the start of
  the library, the launch, the page creation, the screenshot call, the closing of the
  browser and the stop of the library return, navigation and the wait raise nothing but
  instances of \<^verbatim>\<open>Exception\<close> whose \<^verbatim>\<open>Error:\<close> text \<^verbatim>\<open>print\<close> can write, and the
  last flush of standard output succeeds: whether the marker was found, and whether
  navigation or the wait failed, does not show in the status. With all of this but a
  last flush that fails, the status is 120. When the screenshot call raises an
  \<^verbatim>\<open>Exception\<close>, or the launch or the page creation does, or \<^verbatim>\<open>print\<close> does in the
  handler, and the cleanup returns and the last flush succeeds, the exception leaves the
  script and the status is 1.
\<close>

theorem exit_status_zero:
  "(start_error b = None \<and> launch_error b = None \<and> new_page_error b = None \<and>
    shot_error b = None \<and> close_error b = None \<and> stop_error b = None \<and>
    (\<forall>e. escaping b 5000 = Some e \<longrightarrow>
       is_Exception e \<and> print_error b (''Error: '' @ str e) = None) \<longrightarrow>
      exit_status b (fst (main_droid b w)) = (if flush_error b then 120 else 0) \<and>
      exit_status b (fst (main_example b w)) = (if flush_error b then 120 else 0)) \<and>
   (\<forall>m. start_error b = None \<and> launch_error b = None \<and> new_page_error b = None \<and>
      shot_error b = Some (Exception m) \<and> close_error b = None \<and> stop_error b = None \<and>
      \<not> flush_error b \<longrightarrow>
      exit_status b (fst (main_droid b w)) = 1 \<and> exit_status b (fst (main_example b w)) = 1) \<and>
   (\<forall>m. start_error b = None \<and> stop_error b = None \<and> \<not> flush_error b \<and>
      (launch_error b = Some (Exception m) \<or>
       launch_error b = None \<and> new_page_error b = Some (Exception m)) \<longrightarrow>
      exit_status b (fst (main_droid b w)) = 1 \<and> exit_status b (fst (main_example b w)) = 1) \<and>
   (\<forall>e m. start_error b = None \<and> launch_error b = None \<and> new_page_error b = None \<and>
      shot_error b = None \<and> close_error b = None \<and> stop_error b = None \<and>
      \<not> flush_error b \<and> escaping b 5000 = Some e \<and> is_Exception e \<and>
      print_error b (''Error: '' @ str e) = Some (Exception m) \<longrightarrow>
      exit_status b (fst (main_droid b w)) = 1 \<and> exit_status b (fst (main_example b w)) = 1)"
proof -
  have m: "fst (main_droid b w) = main_outcome b 5000"
    "fst (main_example b w) = main_outcome b 5000"
    by (simp_all add: main_droid_def main_example_def verify_droid_def verify_example_def
          main_result)
  have ok: "exit_status b (main_outcome b 5000) = (if flush_error b then 120 else 0)"
    if "start_error b = None \<and> launch_error b = None \<and> new_page_error b = None \<and>
      shot_error b = None \<and> close_error b = None \<and> stop_error b = None \<and>
      (\<forall>e. escaping b 5000 = Some e \<longrightarrow>
         is_Exception e \<and> print_error b (''Error: '' @ str e) = None)"
  proof -
    from that have "main_outcome b 5000 = Returned"
      by (cases "escaping b 5000") (simp_all add: main_outcome_def probe_outcome_def)
    then show ?thesis by (simp add: exit_status_def)
  qed
  have shot: "exit_status b (main_outcome b 5000) = 1"
    if "start_error b = None \<and> launch_error b = None \<and> new_page_error b = None \<and>
      shot_error b = Some (Exception m) \<and> close_error b = None \<and> stop_error b = None \<and>
      \<not> flush_error b" for m
  proof -
    from that have "main_outcome b 5000 = Raised (Exception m)"
      by (simp add: main_outcome_def probe_outcome_def)
    with that show ?thesis by (simp add: exit_status_def)
  qed
  have early: "exit_status b (main_outcome b 5000) = 1"
    if "start_error b = None \<and> stop_error b = None \<and> \<not> flush_error b \<and>
      (launch_error b = Some (Exception m) \<or>
       launch_error b = None \<and> new_page_error b = Some (Exception m))" for m
  proof -
    from that have "main_outcome b 5000 = Raised (Exception m)"
      by (auto simp add: main_outcome_def)
    with that show ?thesis by (simp add: exit_status_def)
  qed
  have pr: "exit_status b (main_outcome b 5000) = 1"
    if "start_error b = None \<and> launch_error b = None \<and> new_page_error b = None \<and>
      shot_error b = None \<and> close_error b = None \<and> stop_error b = None \<and>
      \<not> flush_error b \<and> escaping b 5000 = Some e \<and> is_Exception e \<and>
      print_error b (''Error: '' @ str e) = Some (Exception m)" for e m
  proof -
    from that have "main_outcome b 5000 = Raised (Exception m)"
      by (simp add: main_outcome_def probe_outcome_def)
    with that show ?thesis by (simp add: exit_status_def)
  qed
  show ?thesis
    unfolding m using ok shot early pr by blast
qed

text \<open>
  At a run against a port where nothing listens, at one in which the screenshot fails, at
  one in which no page can be opened, at one whose error text standard output cannot
  encode, and at one whose device is full.
\<close>

theorem exit_status_zero_witness:
  "escaping unreachable 5000 =
     Some (Exception ''Page.goto: net::ERR_CONNECTION_REFUSED at http://localhost:3000/'') \<and>
   exit_status unreachable (fst (main_droid unreachable (fresh Map.empty))) = 0 \<and>
   exit_status unreachable (fst (main_example unreachable (fresh Map.empty))) = 0 \<and>
   shot_error crashed = Some (Exception ''Page.screenshot: Target crashed'') \<and>
   exit_status crashed (fst (main_droid crashed (fresh Map.empty))) = 1 \<and>
   new_page_error no_page = Some (Exception ''Browser.new_page: Target closed'') \<and>
   exit_status no_page (fst (main_example no_page (fresh Map.empty))) = 1 \<and>
   escaping garbled 5000 = Some (Exception (''Page.goto: caf'' @ e_acute)) \<and>
   exit_status garbled (fst (main_droid garbled (fresh Map.empty))) = 1 \<and>
   escaping full_device 5000 = None \<and> flush_error full_device \<and>
   exit_status full_device (fst (main_droid full_device (fresh Map.empty))) = 120"
proof -
  let ?u = "''UnicodeEncodeError: ascii codec cannot encode character''"
  have u: "start_error unreachable = None" "launch_error unreachable = None"
    "new_page_error unreachable = None" "shot_error unreachable = None"
    "close_error unreachable = None" "stop_error unreachable = None"
    "\<not> flush_error unreachable"
    by (simp_all add: sample_defs)
  have e: "\<forall>e. escaping unreachable 5000 = Some e \<longrightarrow>
      is_Exception e \<and> print_error unreachable (''Error: '' @ str e) = None"
    by (simp add: escaping_unreachable) (simp add: sample_defs)
  have c: "start_error crashed = None" "launch_error crashed = None"
    "new_page_error crashed = None" "close_error crashed = None" "stop_error crashed = None"
    "shot_error crashed = Some (Exception ''Page.screenshot: Target crashed'')"
    "\<not> flush_error crashed"
    by (simp_all add: sample_defs)
  have n: "start_error no_page = None" "launch_error no_page = None" "stop_error no_page = None"
    "new_page_error no_page = Some (Exception ''Browser.new_page: Target closed'')"
    "\<not> flush_error no_page"
    by (simp_all add: sample_defs)
  have g: "start_error garbled = None" "launch_error garbled = None"
    "new_page_error garbled = None" "shot_error garbled = None"
    "close_error garbled = None" "stop_error garbled = None" "\<not> flush_error garbled"
    "escaping garbled 5000 = Some (Exception (''Page.goto: caf'' @ e_acute))"
    "is_Exception (Exception (''Page.goto: caf'' @ e_acute))"
    "print_error garbled (''Error: '' @ str (Exception (''Page.goto: caf'' @ e_acute))) =
       Some (Exception ?u)"
    by (simp_all add: sample_defs escaping_def)
  have f: "start_error full_device = None" "launch_error full_device = None"
    "new_page_error full_device = None" "shot_error full_device = None"
    "close_error full_device = None" "stop_error full_device = None"
    "flush_error full_device" "escaping full_device 5000 = None"
    by (simp_all add: sample_defs escaping_def wait_outcome_def)
  have fe: "\<forall>e. escaping full_device 5000 = Some e \<longrightarrow>
      is_Exception e \<and> print_error full_device (''Error: '' @ str e) = None"
    by (simp add: f(8))
  from exit_status_zero [of unreachable "fresh Map.empty"] u e
  have r1: "exit_status unreachable (fst (main_droid unreachable (fresh Map.empty))) = 0 \<and>
      exit_status unreachable (fst (main_example unreachable (fresh Map.empty))) = 0"
    by simp
  from exit_status_zero [of crashed "fresh Map.empty"] c
  have r2: "exit_status crashed (fst (main_droid crashed (fresh Map.empty))) = 1"
    by blast
  from exit_status_zero [of no_page "fresh Map.empty"] n
  have r3: "exit_status no_page (fst (main_example no_page (fresh Map.empty))) = 1"
    by blast
  from exit_status_zero [of garbled "fresh Map.empty"] g
  have r4: "exit_status garbled (fst (main_droid garbled (fresh Map.empty))) = 1"
    by blast
  from exit_status_zero [of full_device "fresh Map.empty"] f(1-7) fe
  have r5: "exit_status full_device (fst (main_droid full_device (fresh Map.empty))) = 120"
    by simp
  from r1 r2 r3 r4 r5 escaping_unreachable c(6) n(4) g(8) f(7,8) show ?thesis by simp
qed

text \<open>
  Claim C6 as stated fails: when the screenshot capture fails, when no page can be
  opened, or when \<^verbatim>\<open>print\<close> raises in the handler, the exception leaves the script and
  the status is 1; and when the last flush of standard output fails, the status is 120
  although the run went well.
\<close>

theorem exit_status_nonzero:
  "exit_status crashed (fst (main_droid crashed (fresh Map.empty))) = 1 \<and>
   exit_status no_page (fst (main_example no_page (fresh Map.empty))) = 1 \<and>
   exit_status garbled (fst (main_droid garbled (fresh Map.empty))) = 1 \<and>
   fst (main_droid full_device (fresh Map.empty)) = Returned \<and>
   exit_status full_device (fst (main_droid full_device (fresh Map.empty))) = 120"
  by (simp add: main_droid_def main_example_def verify_droid_def verify_example_def
        main_result main_outcome_def probe_outcome_def escaping_def wait_outcome_def
        exit_status_def sample_defs)

end
